theory Spec2Isabelle
  imports Main "HOL-Library.Sublist"
begin

section \<open>The Salesforce MCP example client (\<^verbatim>\<open>examples/example-client.py\<close>)\<close>

text \<open>
  The client is one Python class, \<^verbatim>\<open>SalesforceMCPClient\<close>. Its only state that outlives a
  call is the counter \<^verbatim>\<open>self.request_id\<close>. Every method funnels into
  \<^verbatim>\<open>_call_jsonrpc\<close>, which builds a JSON-RPC payload, posts it with the
  \<^verbatim>\<open>requests\<close> library, and inspects the decoded reply. The four convenience methods
  then unwrap the first content item of a tool result with \<^verbatim>\<open>json.loads\<close>.

  The embedding below follows the source line by line. Python exceptions are values of
  \<open>py_exception + 'a\<close> (\<open>Inl\<close> the exception), the mutation of \<^verbatim>\<open>self\<close> is explicit
  state passing, and the three library entry points the client calls but does not define
  (\<^verbatim>\<open>requests.post\<close>, \<^verbatim>\<open>Response.raise_for_status\<close>, \<^verbatim>\<open>json.loads\<close>) are
  parameters, so every theorem holds for whatever the libraries and the server do.
\<close>

subsection \<open>Python values\<close>

text \<open>
  The values that flow through the client are the ones \<^verbatim>\<open>response.json()\<close> and
  \<^verbatim>\<open>json.loads\<close> produce: \<^verbatim>\<open>None\<close>, \<^verbatim>\<open>bool\<close>, \<^verbatim>\<open>int\<close> (unbounded),
  \<^verbatim>\<open>float\<close>, \<^verbatim>\<open>str\<close>, \<^verbatim>\<open>list\<close> and \<^verbatim>\<open>dict\<close> with string keys. A float is
  never computed with; it is carried as its \<^verbatim>\<open>repr\<close>. A dict is an association list in
  insertion order, looked up with \<open>map_of\<close>. A \<open>char\<close> stands for one code point below 256.
\<close>

datatype json =
    JNull
  | JBool bool
  | JInt int
  | JFloat string
  | JStr string
  | JArr "json list"
  | JObj "(string \<times> json) list"

subsection \<open>Python exceptions\<close>

text \<open>
  \<open>requests_exception\<close> are the classes of \<^verbatim>\<open>requests.exceptions\<close> that
  \<^verbatim>\<open>requests.post\<close> and \<^verbatim>\<open>raise_for_status\<close> raise. \<open>Exception msg\<close> is the plain
  \<^verbatim>\<open>Exception(msg)\<close> of line 86: its only argument is the message string.
\<close>

datatype requests_exception =
    ConnectionError
  | Timeout
  | TooManyRedirects
  | HTTPError nat
  | RequestException string

datatype py_exception =
    Requests requests_exception
  | ResponseJSONDecodeError
  | Exception string
  | JSONDecodeError
  | KeyError json
  | IndexError
  | TypeError
  | AttributeError

definition then_do :: "py_exception + 'a \<Rightarrow> ('a \<Rightarrow> py_exception + 'b) \<Rightarrow> py_exception + 'b" where
  "then_do m f = (case m of Inl e \<Rightarrow> Inl e | Inr a \<Rightarrow> f a)"

text \<open>\<^verbatim>\<open>e.args\<close>, what an exception object carries for the caller to inspect: the
  message of the \<^verbatim>\<open>Exception\<close> the client raises, the key of a \<^verbatim>\<open>KeyError\<close>. The
  message texts of the other exceptions, which the interpreter and the libraries write,
  are not modelled.\<close>

fun args :: "py_exception \<Rightarrow> json list" where
  "args (Exception msg) = [JStr msg]"
| "args (KeyError k) = [k]"
| "args _ = []"

subsection \<open>The operators the client applies to decoded values\<close>

text \<open>\<^verbatim>\<open>k in x\<close> for a string literal \<^verbatim>\<open>k\<close>: key membership on a dict, element
  membership on a list, substring test on a str, \<^verbatim>\<open>TypeError\<close> on anything else.\<close>

fun contains :: "json \<Rightarrow> string \<Rightarrow> py_exception + bool" where
  "contains (JObj kvs) k = Inr (map_of kvs k \<noteq> None)"
| "contains (JArr xs) k = Inr (JStr k \<in> set xs)"
| "contains (JStr s) k = Inr (sublist k s)"
| "contains JNull k = Inl TypeError"
| "contains (JBool b) k = Inl TypeError"
| "contains (JInt i) k = Inl TypeError"
| "contains (JFloat r) k = Inl TypeError"

text \<open>\<^verbatim>\<open>x[k]\<close> for a string literal \<^verbatim>\<open>k\<close>: lookup on a dict (\<^verbatim>\<open>KeyError\<close> when the
  key is missing), \<^verbatim>\<open>TypeError\<close> on a list, a str and every scalar.\<close>

fun getitem :: "json \<Rightarrow> string \<Rightarrow> py_exception + json" where
  "getitem (JObj kvs) k = (case map_of kvs k of None \<Rightarrow> Inl (KeyError (JStr k)) | Some v \<Rightarrow> Inr v)"
| "getitem (JArr xs) k = Inl TypeError"
| "getitem (JStr s) k = Inl TypeError"
| "getitem JNull k = Inl TypeError"
| "getitem (JBool b) k = Inl TypeError"
| "getitem (JInt i) k = Inl TypeError"
| "getitem (JFloat r) k = Inl TypeError"

text \<open>\<^verbatim>\<open>x[0]\<close>: the first element of a list, the first character of a str
  (\<^verbatim>\<open>IndexError\<close> when empty), \<^verbatim>\<open>KeyError(0)\<close> on a dict, whose keys are all
  strings, \<^verbatim>\<open>TypeError\<close> on a scalar.\<close>

fun getitem0 :: "json \<Rightarrow> py_exception + json" where
  "getitem0 (JArr xs) = (case xs of [] \<Rightarrow> Inl IndexError | x # _ \<Rightarrow> Inr x)"
| "getitem0 (JStr s) = (case s of [] \<Rightarrow> Inl IndexError | c # _ \<Rightarrow> Inr (JStr [c]))"
| "getitem0 (JObj kvs) = Inl (KeyError (JInt 0))"
| "getitem0 JNull = Inl TypeError"
| "getitem0 (JBool b) = Inl TypeError"
| "getitem0 (JInt i) = Inl TypeError"
| "getitem0 (JFloat r) = Inl TypeError"

text \<open>\<^verbatim>\<open>len(x)\<close>: defined on list, str and dict (the number of keys).\<close>

fun len :: "json \<Rightarrow> py_exception + nat" where
  "len (JArr xs) = Inr (length xs)"
| "len (JStr s) = Inr (length s)"
| "len (JObj kvs) = Inr (length (remdups (map fst kvs)))"
| "len JNull = Inl TypeError"
| "len (JBool b) = Inl TypeError"
| "len (JInt i) = Inl TypeError"
| "len (JFloat r) = Inl TypeError"

text \<open>\<^verbatim>\<open>x.get(k, default)\<close>: only a dict has the method.\<close>

fun get :: "json \<Rightarrow> string \<Rightarrow> json \<Rightarrow> py_exception + json" where
  "get (JObj kvs) k d = Inr (case map_of kvs k of None \<Rightarrow> d | Some v \<Rightarrow> v)"
| "get (JArr xs) k d = Inl AttributeError"
| "get (JStr s) k d = Inl AttributeError"
| "get JNull k d = Inl AttributeError"
| "get (JBool b) k d = Inl AttributeError"
| "get (JInt i) k d = Inl AttributeError"
| "get (JFloat r) k d = Inl AttributeError"

subsection \<open>\<^verbatim>\<open>str\<close> and \<^verbatim>\<open>repr\<close>, as the f-string of line 86 applies them\<close>

definition digit_char :: "nat \<Rightarrow> char" where
  "digit_char d = ''0123456789abcdef'' ! d"

fun digits :: "nat \<Rightarrow> string" where
  "digits n = (if n < 10 then [digit_char n] else digits (n div 10) @ [digit_char (n mod 10)])"

declare digits.simps [simp del]

definition int_str :: "int \<Rightarrow> string" where
  "int_str i = (if i < 0 then ''-'' @ digits (nat (- i)) else digits (nat i))"

definition hex2 :: "nat \<Rightarrow> string" where
  "hex2 n = [digit_char (n div 16), digit_char (n mod 16)]"

text \<open>One character inside \<^verbatim>\<open>repr\<close> of a str delimited by the quote \<open>q\<close>: the quote and
  the backslash are escaped, tab, newline and carriage return have their letters, other
  control and non-printable code points are written \<^verbatim>\<open>\xNN\<close>.\<close>

definition repr_char :: "char \<Rightarrow> char \<Rightarrow> string" where
  "repr_char q c =
     (let n = (of_char c :: nat) in
      if c = q \<or> c = CHR 0x5C then [CHR 0x5C, c]
      else if c = CHR 0x09 then [CHR 0x5C, CHR ''t'']
      else if c = CHR 0x0A then [CHR 0x5C, CHR ''n'']
      else if c = CHR 0x0D then [CHR 0x5C, CHR ''r'']
      else if n < 32 \<or> n = 127 then [CHR 0x5C, CHR ''x''] @ hex2 n
      else if n < 127 then [c]
      else if n \<le> 160 \<or> n = 173 then [CHR 0x5C, CHR ''x''] @ hex2 n
      else [c])"

text \<open>\<^verbatim>\<open>repr\<close> of a str: single quotes, unless the text has a single quote and no
  double quote.\<close>

definition repr_str :: "string \<Rightarrow> string" where
  "repr_str s =
     (let q = (if CHR 0x27 \<in> set s \<and> CHR 0x22 \<notin> set s then CHR 0x22 else CHR 0x27)
      in [q] @ concat (map (repr_char q) s) @ [q])"

fun join :: "string \<Rightarrow> string list \<Rightarrow> string" where
  "join sep [] = []"
| "join sep [x] = x"
| "join sep (x # y # ys) = x @ sep @ join sep (y # ys)"

fun repr :: "json \<Rightarrow> string" where
  "repr JNull = ''None''"
| "repr (JBool b) = (if b then ''True'' else ''False'')"
| "repr (JInt i) = int_str i"
| "repr (JFloat r) = r"
| "repr (JStr s) = repr_str s"
| "repr (JArr xs) = ''['' @ join '', '' (map repr xs) @ '']''"
| "repr (JObj kvs) =
     ''{'' @ join '', '' (map (\<lambda>(k, v). repr_str k @ '': '' @ repr v) kvs) @ ''}''"

text \<open>\<^verbatim>\<open>str(x)\<close>, which is what \<^verbatim>\<open>f"{x}"\<close> inserts: a str is inserted as it is,
  every other value as its \<^verbatim>\<open>repr\<close>.\<close>

definition str :: "json \<Rightarrow> string" where
  "str x = (case x of JStr s \<Rightarrow> s | _ \<Rightarrow> repr x)"

subsection \<open>The libraries the client calls\<close>

text \<open>
  \<open>http_request\<close> holds the arguments of \<^verbatim>\<open>requests.post(url, headers=, json=, timeout=)\<close>.
  \<open>http_response\<close> holds what the client reads of the reply: the status code and what
  \<^verbatim>\<open>response.json()\<close> returns (\<open>None\<close> when the body does not decode and the method
  raises).
\<close>

record http_request =
  req_url :: string
  req_headers :: "(string \<times> string) list"
  req_json :: json
  req_timeout :: nat

record http_response =
  status_code :: nat
  decoded_body :: "json option"

text \<open>
  The library functions, as parameters. \<open>'w\<close> is the state of everything outside the
  process (network and server): \<open>requests_post\<close> reads and changes it, and either raises
  or returns a response. \<open>raise_for_status\<close> returns the exception it raises, if any.
  \<open>json_loads\<close> is \<^verbatim>\<open>json.loads\<close> on a str: \<open>None\<close> when it raises
  \<^verbatim>\<open>json.JSONDecodeError\<close>.
\<close>

record 'w library =
  requests_post :: "'w \<Rightarrow> http_request \<Rightarrow> (requests_exception + http_response) \<times> 'w"
  raise_for_status :: "http_response \<Rightarrow> requests_exception option"
  json_loads :: "string \<Rightarrow> json option"

text \<open>\<^verbatim>\<open>json.loads(x)\<close> on any value: only a str is accepted.\<close>

definition loads :: "'w library \<Rightarrow> json \<Rightarrow> py_exception + json" where
  "loads lib x =
     (case x of
        JStr s \<Rightarrow> (case json_loads lib s of None \<Rightarrow> Inl JSONDecodeError | Some v \<Rightarrow> Inr v)
      | _ \<Rightarrow> Inl TypeError)"

subsection \<open>The client object\<close>

record client =
  server_url :: string
  mcp_endpoint :: string
  headers :: "(string \<times> string) list"
  request_id :: int

definition rstrip :: "char \<Rightarrow> string \<Rightarrow> string" where
  "rstrip c s = rev (dropWhile (\<lambda>x. x = c) (rev s))"

text \<open>\<^verbatim>\<open>__init__\<close>, lines 34 to 47. \<open>secret_key\<close> is \<^verbatim>\<open>Optional[str]\<close>; the header is
  added when it is truthy, that is a non-empty string.\<close>

definition client_init ::
  "string \<Rightarrow> string \<Rightarrow> string \<Rightarrow> string \<Rightarrow> string \<Rightarrow> string option \<Rightarrow> client" where
  "client_init url sf_username sf_password sf_security_token sf_login_url secret_key =
     (let base = rstrip CHR ''/'' url;
          hs = [(''Content-Type'', ''application/json''),
                (''x-sf-username'', sf_username),
                (''x-sf-password'', sf_password),
                (''x-sf-security-token'', sf_security_token),
                (''x-sf-login-url'', sf_login_url)];
          hs' = (case secret_key of
                   None \<Rightarrow> hs
                 | Some k \<Rightarrow> if k = [] then hs else hs @ [(''x-secret-key'', k)])
      in \<lparr>server_url = base, mcp_endpoint = base @ ''/mcp'', headers = hs', request_id = 0\<rparr>)"

text \<open>\<^verbatim>\<open>_next_id\<close>, lines 49 to 52: increment, then return the new value.\<close>

definition next_id :: "client \<Rightarrow> int \<times> client" where
  "next_id self = (let self' = self\<lparr>request_id := request_id self + 1\<rparr> in (request_id self', self'))"

subsection \<open>\<^verbatim>\<open>_call_jsonrpc\<close>\<close>

text \<open>
  A run is the client instance, the outside world, and the list of requests handed to
  \<^verbatim>\<open>requests.post\<close> so far, oldest first. The list is a record of what was sent; the
  client never reads it.
\<close>

record 'w run =
  inst :: client
  world :: 'w
  wire :: "http_request list"

text \<open>Lines 68 to 73: the payload dict. \<^verbatim>\<open>params or {}\<close> replaces \<^verbatim>\<open>None\<close> and the
  empty dict by a new empty dict.\<close>

definition payload :: "int \<Rightarrow> string \<Rightarrow> (string \<times> json) list option \<Rightarrow> json" where
  "payload rid method params =
     JObj [(''jsonrpc'', JStr ''2.0''),
           (''id'', JInt rid),
           (''method'', JStr method),
           (''params'', JObj (case params of None \<Rightarrow> [] | Some p \<Rightarrow> if p = [] then [] else p))]"

text \<open>Lines 75 to 80: the arguments of \<^verbatim>\<open>requests.post\<close>.\<close>

definition post_request :: "client \<Rightarrow> json \<Rightarrow> http_request" where
  "post_request self body =
     \<lparr>req_url = mcp_endpoint self, req_headers = headers self, req_json = body, req_timeout = 60\<rparr>"

text \<open>Lines 85 to 88, on the decoded reply \<^verbatim>\<open>result\<close>.\<close>

definition resolve :: "json \<Rightarrow> py_exception + json" where
  "resolve result =
     then_do (contains result ''error'') (\<lambda>has_error.
       if has_error
       then then_do (getitem result ''error'') (\<lambda>e. Inl (Exception (''MCP Error: '' @ str e)))
       else get result ''result'' (JObj []))"

text \<open>
  Lines 68 to 88. The id is allocated while the payload is built, before anything is
  sent. An exception leaves \<^verbatim>\<open>self\<close> as it was when raised, so the run is returned in
  both outcomes.
\<close>

definition call_jsonrpc ::
  "'w library \<Rightarrow> string \<Rightarrow> (string \<times> json) list option \<Rightarrow> 'w run \<Rightarrow> (py_exception + json) \<times> 'w run" where
  "call_jsonrpc lib method params s =
     (let (rid, self') = next_id (inst s);
          request = post_request self' (payload rid method params);
          (outcome, w') = requests_post lib (world s) request;
          s' = \<lparr>inst = self', world = w', wire = wire s @ [request]\<rparr>
      in (case outcome of
            Inl e \<Rightarrow> Inl (Requests e)
          | Inr response \<Rightarrow>
              (case raise_for_status lib response of
                 Some e \<Rightarrow> Inl (Requests e)
               | None \<Rightarrow>
                   (case decoded_body response of
                      None \<Rightarrow> Inl ResponseJSONDecodeError
                    | Some result \<Rightarrow> resolve result)),
          s'))"

subsection \<open>The public methods\<close>

definition initialize :: "'w library \<Rightarrow> 'w run \<Rightarrow> (py_exception + json) \<times> 'w run" where
  "initialize lib s = call_jsonrpc lib ''initialize'' None s"

definition list_tools :: "'w library \<Rightarrow> 'w run \<Rightarrow> (py_exception + json) \<times> 'w run" where
  "list_tools lib s = call_jsonrpc lib ''tools/list'' None s"

definition call_tool ::
  "'w library \<Rightarrow> string \<Rightarrow> json \<Rightarrow> 'w run \<Rightarrow> (py_exception + json) \<times> 'w run" where
  "call_tool lib tool_name arguments s =
     call_jsonrpc lib ''tools/call'' (Some [(''name'', JStr tool_name), (''arguments'', arguments)]) s"

text \<open>
  The three lines that end \<^verbatim>\<open>query\<close> (128 to 130), \<^verbatim>\<open>tooling_query\<close> (143 to 145),
  \<^verbatim>\<open>describe_object\<close> (162 to 164) and \<^verbatim>\<open>retrieve_metadata\<close> (181 to 183), the same
  text in all four:
  \<^verbatim>\<open>if "content" in result and len(result["content"]) > 0:
      return json.loads(result["content"][0]["text"])
  return result\<close>
\<close>

definition unwrap :: "'w library \<Rightarrow> json \<Rightarrow> py_exception + json" where
  "unwrap lib result =
     then_do (contains result ''content'') (\<lambda>present.
       if present
       then then_do (getitem result ''content'') (\<lambda>content.
            then_do (len content) (\<lambda>n.
              if 0 < n
              then then_do (getitem result ''content'') (\<lambda>content.
                   then_do (getitem0 content) (\<lambda>item.
                   then_do (getitem item ''text'') (\<lambda>text.
                   loads lib text)))
              else Inr result))
       else Inr result)"

text \<open>A method that calls a tool and unwraps what it returns; an exception of the call
  passes through.\<close>

definition unwrapped ::
  "'w library \<Rightarrow> (py_exception + json) \<times> 'w run \<Rightarrow> (py_exception + json) \<times> 'w run" where
  "unwrapped lib r = (case r of (Inl e, s) \<Rightarrow> (Inl e, s) | (Inr result, s) \<Rightarrow> (unwrap lib result, s))"

definition query :: "'w library \<Rightarrow> string \<Rightarrow> 'w run \<Rightarrow> (py_exception + json) \<times> 'w run" where
  "query lib soql s = unwrapped lib (call_tool lib ''query'' (JObj [(''query'', JStr soql)]) s)"

definition tooling_query :: "'w library \<Rightarrow> string \<Rightarrow> 'w run \<Rightarrow> (py_exception + json) \<times> 'w run" where
  "tooling_query lib q s =
     unwrapped lib (call_tool lib ''tooling-query'' (JObj [(''query'', JStr q)]) s)"

definition describe_object ::
  "'w library \<Rightarrow> string \<Rightarrow> bool \<Rightarrow> 'w run \<Rightarrow> (py_exception + json) \<times> 'w run" where
  "describe_object lib object_name detailed s =
     unwrapped lib (call_tool lib ''describe-object''
       (JObj [(''objectName'', JStr object_name), (''detailed'', JBool detailed)]) s)"

definition retrieve_metadata ::
  "'w library \<Rightarrow> string \<Rightarrow> json list \<Rightarrow> 'w run \<Rightarrow> (py_exception + json) \<times> 'w run" where
  "retrieve_metadata lib metadata_type full_names s =
     unwrapped lib (call_tool lib ''metadata-retrieve''
       (JObj [(''type'', JStr metadata_type), (''fullNames'', JArr full_names)]) s)"

subsection \<open>Callers\<close>

text \<open>
  A caller invokes methods of one instance, one after the other, and goes on after an
  exception (it catches it). \<open>call\<close> names one invocation with its arguments,
  \<open>perform\<close> runs it, \<open>perform_all\<close> runs a sequence and keeps the run.
\<close>

datatype call =
    CallJsonrpc string "(string \<times> json) list option"
  | Initialize
  | ListTools
  | CallTool string json
  | Query string
  | ToolingQuery string
  | DescribeObject string bool
  | RetrieveMetadata string "json list"

fun perform :: "'w library \<Rightarrow> call \<Rightarrow> 'w run \<Rightarrow> (py_exception + json) \<times> 'w run" where
  "perform lib (CallJsonrpc method params) s = call_jsonrpc lib method params s"
| "perform lib Initialize s = initialize lib s"
| "perform lib ListTools s = list_tools lib s"
| "perform lib (CallTool tool_name arguments) s = call_tool lib tool_name arguments s"
| "perform lib (Query soql) s = query lib soql s"
| "perform lib (ToolingQuery q) s = tooling_query lib q s"
| "perform lib (DescribeObject object_name detailed) s = describe_object lib object_name detailed s"
| "perform lib (RetrieveMetadata metadata_type full_names) s =
     retrieve_metadata lib metadata_type full_names s"

fun perform_all :: "'w library \<Rightarrow> call list \<Rightarrow> 'w run \<Rightarrow> 'w run" where
  "perform_all lib [] s = s"
| "perform_all lib (c # cs) s = perform_all lib cs (snd (perform lib c s))"

text \<open>The \<^verbatim>\<open>id\<close> entry of the payload of a request.\<close>

definition sent_id :: "http_request \<Rightarrow> json option" where
  "sent_id r = (case req_json r of JObj kvs \<Rightarrow> map_of kvs ''id'' | _ \<Rightarrow> None)"

text \<open>A run that starts with a new client and nothing sent.\<close>

definition start :: "client \<Rightarrow> 'w \<Rightarrow> 'w run" where
  "start c w = \<lparr>inst = c, world = w, wire = []\<rparr>"

subsection \<open>Sample libraries and replies\<close>

text \<open>
  Concrete libraries, for evaluating the client on explicit inputs.

  \<open>http_raise_for_status\<close> is \<^verbatim>\<open>Response.raise_for_status\<close> as the requests library
  defines it: it raises \<^verbatim>\<open>HTTPError\<close> for a client error (status 400 to 499) and for a
  server error (500 to 599), and returns for every other status.
  \<open>sample_loads\<close> agrees with \<^verbatim>\<open>json.loads\<close> on the two texts used below: it decodes
  \<open>{"a":1}\<close> and rejects \<open>not-json\<close> (with every other text).
  The world of \<open>server\<close> is the number of posts made so far; every post has the same
  outcome.
\<close>

definition http_raise_for_status :: "http_response \<Rightarrow> requests_exception option" where
  "http_raise_for_status r =
     (if 400 \<le> status_code r \<and> status_code r < 600 then Some (HTTPError (status_code r)) else None)"

definition sample_loads :: "string \<Rightarrow> json option" where
  \<open>sample_loads t = (if t = ''{"a":1}'' then Some (JObj [(''a'', JInt 1)]) else None)\<close>

definition server :: "requests_exception + http_response \<Rightarrow> nat library" where
  "server outcome =
     \<lparr>requests_post = (\<lambda>w request. (outcome, Suc w)),
      raise_for_status = http_raise_for_status,
      json_loads = sample_loads\<rparr>"

definition ok_reply :: "json \<Rightarrow> requests_exception + http_response" where
  "ok_reply body = Inr \<lparr>status_code = 200, decoded_body = Some body\<rparr>"

definition local_client :: client where
  "local_client =
     client_init ''http://localhost:8080/'' ''user@example.com'' ''password'' ''token''
       ''https://login.salesforce.com'' None"

text \<open>A JSON-RPC error object, as a server sends it for an unknown method.\<close>

definition method_not_found :: json where
  "method_not_found = JObj [(''code'', JInt (- 32601)), (''message'', JStr ''Method not found'')]"

section \<open>Properties\<close>

subsection \<open>What one call does to the run\<close>

lemma inst_call_jsonrpc:
  "inst (snd (call_jsonrpc lib method params s)) = (inst s)\<lparr>request_id := request_id (inst s) + 1\<rparr>"
  by (simp add: call_jsonrpc_def next_id_def Let_def split: prod.splits)

lemma wire_call_jsonrpc:
  "wire (snd (call_jsonrpc lib method params s)) =
     wire s @ [post_request (inst s) (payload (request_id (inst s) + 1) method params)]"
  by (simp add: call_jsonrpc_def next_id_def post_request_def Let_def split: prod.splits)

lemma world_call_jsonrpc:
  "world (snd (call_jsonrpc lib method params s)) =
     snd (requests_post lib (world s)
            (post_request (inst s) (payload (request_id (inst s) + 1) method params)))"
  by (simp add: call_jsonrpc_def next_id_def post_request_def Let_def split: prod.splits)

lemma snd_unwrapped: "snd (unwrapped lib r) = snd r"
  by (simp add: unwrapped_def split: prod.splits sum.splits)

lemma sent_id_post_request: "sent_id (post_request c (payload rid method params)) = Some (JInt rid)"
  by (simp add: sent_id_def post_request_def payload_def)

lemmas method_defs =
  initialize_def list_tools_def call_tool_def query_def tooling_query_def
  describe_object_def retrieve_metadata_def

lemma request_id_perform:
  "request_id (inst (snd (perform lib c s))) = request_id (inst s) + 1"
  by (cases c) (simp_all add: method_defs snd_unwrapped inst_call_jsonrpc)

lemma sent_ids_perform:
  "map sent_id (wire (snd (perform lib c s))) =
     map sent_id (wire s) @ [Some (JInt (request_id (inst s) + 1))]"
  by (cases c) (simp_all add: method_defs snd_unwrapped wire_call_jsonrpc sent_id_post_request)

subsection \<open>The ids of a sequence of calls\<close>

lemma map_upt_from_1:
  "map f [Suc 0..<Suc (Suc n)] = f (Suc 0) # map (\<lambda>k. f (Suc k)) [Suc 0..<Suc n]"
proof -
  have "[Suc 0..<Suc (Suc n)] = Suc 0 # map Suc [Suc 0..<Suc n]"
    by (simp add: upt_conv_Cons map_Suc_upt del: upt_Suc)
  then show ?thesis by (simp add: comp_def del: upt_Suc)
qed

text \<open>From any run, \<open>N\<close> further calls send the ids \<open>request_id + 1\<close> to
  \<open>request_id + N\<close>, in this order. Induction on the calls, the run generalised.\<close>

lemma sent_ids_perform_all:
  "map sent_id (wire (perform_all lib cs s)) =
     map sent_id (wire s) @
     map (\<lambda>k. Some (JInt (request_id (inst s) + int k))) [1..<Suc (length cs)]"
proof (induction cs arbitrary: s)
  case Nil
  show ?case by simp
next
  case (Cons c cs)
  have "map sent_id (wire (perform_all lib (c # cs) s)) =
          map sent_id (wire (perform_all lib cs (snd (perform lib c s))))"
    by simp
  also have "\<dots> = (map sent_id (wire s) @ [Some (JInt (request_id (inst s) + 1))]) @
          map (\<lambda>k. Some (JInt (request_id (inst s) + 1 + int k))) [1..<Suc (length cs)]"
    by (simp only: Cons.IH sent_ids_perform request_id_perform)
  also have "\<dots> = map sent_id (wire s) @
          map (\<lambda>k. Some (JInt (request_id (inst s) + int k))) [1..<Suc (length (c # cs))]"
    by (simp add: map_upt_from_1 add.assoc del: upt_Suc)
  finally show ?case .
qed

text \<open>
  C1. Take a new client and any sequence of \<open>N\<close> method calls on it
  (\<^verbatim>\<open>_call_jsonrpc\<close>, \<^verbatim>\<open>initialize\<close>, \<^verbatim>\<open>list_tools\<close>, \<^verbatim>\<open>call_tool\<close> or one of the
  four convenience methods, in any mix). Whatever the libraries do at each call (the post
  raises, the status check raises, the body does not decode, the reply carries an error,
  the unwrapping raises, or the call returns), the ids of the requests handed to
  \<^verbatim>\<open>requests.post\<close> are \<open>1, 2, \<dots>, N\<close> in this order: no repeat and no gap.
\<close>

theorem request_ids_count_from_one:
  "map sent_id (wire (perform_all lib calls
       (start (client_init url sf_username sf_password sf_security_token sf_login_url secret_key) w))) =
   map (\<lambda>n. Some (JInt (int n))) [1..<Suc (length calls)]"
  by (simp add: sent_ids_perform_all start_def client_init_def Let_def del: upt_Suc)

subsection \<open>The request that \<^verbatim>\<open>query\<close> sends\<close>

lemma last_wire_perform:
  "sent_id (last (wire (snd (perform lib c s)))) =
     Some (JInt (request_id (inst (snd (perform lib c s)))))"
proof -
  have "map sent_id (wire (snd (perform lib c s))) \<noteq> []"
    by (simp add: sent_ids_perform)
  then have "sent_id (last (wire (snd (perform lib c s)))) =
               last (map sent_id (wire (snd (perform lib c s))))"
    by (simp add: last_map)
  then show ?thesis
    by (simp add: sent_ids_perform request_id_perform)
qed

lemma endpoint_perform:
  "mcp_endpoint (inst (snd (perform lib c s))) = mcp_endpoint (inst s)"
  "headers (inst (snd (perform lib c s))) = headers (inst s)"
  by (cases c; simp add: method_defs snd_unwrapped inst_call_jsonrpc)+

text \<open>
  C4. After any earlier call on the instance, \<^verbatim>\<open>query("SELECT Id FROM Account LIMIT 1")\<close>
  hands \<^verbatim>\<open>requests.post\<close> exactly one request. Its body is the dict with
  \<^verbatim>\<open>jsonrpc\<close> \<open>"2.0"\<close>, \<^verbatim>\<open>method\<close> \<open>"tools/call"\<close>, \<^verbatim>\<open>params\<close>
  \<open>{name: "query", arguments: {query: "SELECT Id FROM Account LIMIT 1"}}\<close> and an
  \<^verbatim>\<open>id\<close> one greater than the id the earlier call sent. It goes to the instance's
  endpoint with the instance's headers and a timeout of 60.
\<close>

theorem query_request_body:
  "let s1 = snd (perform lib previous s0);
       s2 = snd (query lib ''SELECT Id FROM Account LIMIT 1'' s1)
   in sent_id (last (wire s1)) = Some (JInt (request_id (inst s1))) \<and>
      wire s2 = wire s1 @
        [\<lparr>req_url = mcp_endpoint (inst s0),
          req_headers = headers (inst s0),
          req_json = JObj [(''jsonrpc'', JStr ''2.0''),
                           (''id'', JInt (request_id (inst s1) + 1)),
                           (''method'', JStr ''tools/call''),
                           (''params'', JObj [(''name'', JStr ''query''),
                              (''arguments'',
                               JObj [(''query'', JStr ''SELECT Id FROM Account LIMIT 1'')])])],
          req_timeout = 60\<rparr>]"
  by (simp add: Let_def last_wire_perform query_def call_tool_def snd_unwrapped wire_call_jsonrpc
        post_request_def payload_def endpoint_perform)

subsection \<open>The result of \<^verbatim>\<open>_call_jsonrpc\<close>\<close>

text \<open>The result of a call is decided by the outcome of its one post alone.\<close>

lemma call_jsonrpc_result:
  "fst (call_jsonrpc lib method params s) =
     (case fst (requests_post lib (world s)
              (post_request (inst s) (payload (request_id (inst s) + 1) method params))) of
        Inl e \<Rightarrow> Inl (Requests e)
      | Inr response \<Rightarrow>
          (case raise_for_status lib response of
             Some e \<Rightarrow> Inl (Requests e)
           | None \<Rightarrow>
               (case decoded_body response of
                  None \<Rightarrow> Inl ResponseJSONDecodeError
                | Some result \<Rightarrow> resolve result)))"
  by (simp add: call_jsonrpc_def next_id_def post_request_def Let_def split: prod.splits)

lemma call_jsonrpc_decoded:
  assumes "fst (requests_post lib (world s)
              (post_request (inst s) (payload (request_id (inst s) + 1) method params))) = Inr response"
      and "raise_for_status lib response = None"
      and "decoded_body response = Some result"
  shows "fst (call_jsonrpc lib method params s) = resolve result"
  using assms by (simp add: call_jsonrpc_result)

lemma resolve_error:
  "map_of reply ''error'' = Some e \<Longrightarrow>
     resolve (JObj reply) = Inl (Exception (''MCP Error: '' @ str e))"
  by (simp add: resolve_def then_do_def)

lemma resolve_no_error:
  "map_of reply ''error'' = None \<Longrightarrow>
     resolve (JObj reply) = Inr (case map_of reply ''result'' of None \<Rightarrow> JObj [] | Some v \<Rightarrow> v)"
  by (simp add: resolve_def then_do_def)

lemma resolve_not_Requests: "resolve result \<noteq> Inl (Requests e)"
  by (cases result) (auto simp: resolve_def then_do_def split: option.splits)

lemmas str_defs =
  Let_def str_def repr_str_def repr_char_def int_str_def digits.simps digit_char_def hex2_def

lemma str_method_not_found:
  "str method_not_found = ''{'code': -32601, 'message': 'Method not found'}''"
  by (simp add: method_not_found_def str_defs)

lemma call_jsonrpc_ok_reply:
  "fst (call_jsonrpc (server (ok_reply body)) method params s) = resolve body"
  by (simp add: call_jsonrpc_result server_def ok_reply_def http_raise_for_status_def)

text \<open>
  C2, as the code has it. When the post returns, the status check passes and the body
  decodes to a dict that has the key \<^verbatim>\<open>error\<close>, the call raises the plain
  \<^verbatim>\<open>Exception("MCP Error: " + str(error))\<close>: its message is a rendering of the error
  payload. Nothing is assumed about the key \<^verbatim>\<open>result\<close>: it may be present, and the
  call still raises.
\<close>

theorem error_field_wins:
  assumes "fst (requests_post lib (world s)
              (post_request (inst s) (payload (request_id (inst s) + 1) method params))) = Inr response"
      and "raise_for_status lib response = None"
      and "decoded_body response = Some (JObj reply)"
      and "map_of reply ''error'' = Some e"
  shows "fst (call_jsonrpc lib method params s) = Inl (Exception (''MCP Error: '' @ str e))"
  using assms by (simp add: call_jsonrpc_decoded resolve_error)

text \<open>A reply with both keys: the call raises, with the rendered error in the message.\<close>

theorem error_field_wins_witness:
  "fst (call_jsonrpc
          (server (ok_reply
             (JObj [(''result'', JObj [(''tools'', JArr [])]), (''error'', method_not_found)])))
          ''tools/list'' None (start local_client 0)) =
   Inl (Exception ''MCP Error: {'code': -32601, 'message': 'Method not found'}'')"
proof -
  let ?reply = "[(''result'', JObj [(''tools'', JArr [])]), (''error'', method_not_found)]"
  let ?lib = "server (ok_reply (JObj ?reply))"
  let ?s = "start local_client (0::nat)"
  have "fst (call_jsonrpc ?lib ''tools/list'' None ?s) =
          Inl (Exception (''MCP Error: '' @ str method_not_found))"
    by (rule error_field_wins
          [where response = "\<lparr>status_code = 200, decoded_body = Some (JObj ?reply)\<rparr>"
             and reply = ?reply])
       (simp_all add: server_def ok_reply_def http_raise_for_status_def)
  then show ?thesis by (simp only: str_method_not_found append.simps)
qed

text \<open>
  C2, as the claim has it, fails: the exception does not carry the payload. For the reply
  \<open>{result: 7, error: {code: -32601, message: "Method not found"}}\<close> the only argument of
  the exception is the string \<open>MCP Error: {'code': -32601, 'message': 'Method not found'}\<close>,
  and the replies \<open>{error: 1, result: 7}\<close> and \<open>{error: "1", result: 7}\<close>, whose
  payloads differ, raise the same exception.
\<close>

theorem error_beside_result_is_not_carried:
  "fst (call_jsonrpc
          (server (ok_reply (JObj [(''result'', JInt 7), (''error'', method_not_found)])))
          ''tools/list'' None (start local_client 0)) =
     Inl (Exception ''MCP Error: {'code': -32601, 'message': 'Method not found'}'') \<and>
   method_not_found \<notin>
     set (args (Exception ''MCP Error: {'code': -32601, 'message': 'Method not found'}'')) \<and>
   fst (call_jsonrpc (server (ok_reply (JObj [(''error'', JInt 1), (''result'', JInt 7)])))
          ''tools/list'' None (start local_client 0)) =
   fst (call_jsonrpc (server (ok_reply (JObj [(''error'', JStr ''1''), (''result'', JInt 7)])))
          ''tools/list'' None (start local_client 0))"
proof -
  have 1: "fst (call_jsonrpc
          (server (ok_reply (JObj [(''result'', JInt 7), (''error'', method_not_found)])))
          ''tools/list'' None (start local_client 0)) =
     Inl (Exception (''MCP Error: '' @ str method_not_found))"
    by (simp add: call_jsonrpc_ok_reply resolve_error)
  have 2: "method_not_found \<notin>
     set (args (Exception ''MCP Error: {'code': -32601, 'message': 'Method not found'}''))"
    by (simp add: method_not_found_def)
  have c: "fst (call_jsonrpc (server (ok_reply (JObj [(''error'', e), (''result'', JInt 7)])))
                 ''tools/list'' None (start local_client 0)) =
             Inl (Exception (''MCP Error: '' @ str e))" for e
    by (simp add: call_jsonrpc_ok_reply resolve_error)
  have "str (JInt 1) = str (JStr ''1'')"
    by (simp add: str_defs)
  then have 3: "fst (call_jsonrpc (server (ok_reply (JObj [(''error'', JInt 1), (''result'', JInt 7)])))
          ''tools/list'' None (start local_client 0)) =
   fst (call_jsonrpc (server (ok_reply (JObj [(''error'', JStr ''1''), (''result'', JInt 7)])))
          ''tools/list'' None (start local_client 0))"
    by (simp only: c)
  from 1 have m: "fst (call_jsonrpc
          (server (ok_reply (JObj [(''result'', JInt 7), (''error'', method_not_found)])))
          ''tools/list'' None (start local_client 0)) =
     Inl (Exception ''MCP Error: {'code': -32601, 'message': 'Method not found'}'')"
    by (simp only: str_method_not_found append.simps)
  from m 2 3 show ?thesis by (intro conjI)
qed

text \<open>
  C6. When the post returns, the status check passes and the body decodes to a dict with
  neither the key \<^verbatim>\<open>error\<close> nor the key \<^verbatim>\<open>result\<close>, the call returns the empty dict.
\<close>

theorem missing_result_is_empty_mapping:
  assumes "fst (requests_post lib (world s)
              (post_request (inst s) (payload (request_id (inst s) + 1) method params))) = Inr response"
      and "raise_for_status lib response = None"
      and "decoded_body response = Some (JObj reply)"
      and "map_of reply ''error'' = None"
      and "map_of reply ''result'' = None"
  shows "fst (call_jsonrpc lib method params s) = Inr (JObj [])"
  using assms by (simp add: call_jsonrpc_decoded resolve_no_error)

theorem missing_result_is_empty_mapping_witness:
  "fst (call_jsonrpc (server (ok_reply (JObj [(''jsonrpc'', JStr ''2.0''), (''id'', JInt 1)])))
          ''initialize'' None (start local_client 0)) = Inr (JObj [])"
  by (rule missing_result_is_empty_mapping
        [where response = "\<lparr>status_code = 200,
                 decoded_body = Some (JObj [(''jsonrpc'', JStr ''2.0''), (''id'', JInt 1)])\<rparr>"
           and reply = "[(''jsonrpc'', JStr ''2.0''), (''id'', JInt 1)]"])
     (simp_all add: server_def ok_reply_def http_raise_for_status_def)

lemma message_is_not_payload: "JStr (''MCP Error: '' @ str e) \<noteq> e"
  by (cases e) (simp_all add: str_def)

text \<open>
  C7, as the code has it. When the reply has the key \<^verbatim>\<open>error\<close>, the exception raised
  is the plain \<^verbatim>\<open>Exception\<close> whose only argument is a string: \<open>"MCP Error: "\<close>
  followed by \<^verbatim>\<open>str\<close> of the error payload. That argument is never the payload
  itself: the payload reaches the caller as this rendering.
\<close>

theorem error_payload_is_rendered:
  assumes "fst (requests_post lib (world s)
              (post_request (inst s) (payload (request_id (inst s) + 1) method params))) = Inr response"
      and "raise_for_status lib response = None"
      and "decoded_body response = Some (JObj reply)"
      and "map_of reply ''error'' = Some e"
  shows "fst (call_jsonrpc lib method params s) = Inl (Exception (''MCP Error: '' @ str e)) \<and>
         args (Exception (''MCP Error: '' @ str e)) = [JStr (''MCP Error: '' @ str e)] \<and>
         JStr (''MCP Error: '' @ str e) \<noteq> e"
  using assms message_is_not_payload [of e] by (simp add: call_jsonrpc_decoded resolve_error)

theorem error_payload_is_rendered_witness:
  "fst (call_jsonrpc (server (ok_reply (JObj [(''error'', JInt 1)]))) ''initialize'' None
          (start local_client 0)) = Inl (Exception ''MCP Error: 1'') \<and>
   args (Exception ''MCP Error: 1'') = [JStr ''MCP Error: 1'']"
proof -
  have "str (JInt 1) = ''1''"
    by (simp add: str_defs)
  with error_payload_is_rendered
         [of "server (ok_reply (JObj [(''error'', JInt 1)]))" "start local_client 0"
             "''initialize''" None
             "\<lparr>status_code = 200, decoded_body = Some (JObj [(''error'', JInt 1)])\<rparr>"
             "[(''error'', JInt 1)]" "JInt 1"]
  show ?thesis
    by (simp add: server_def ok_reply_def http_raise_for_status_def)
qed

text \<open>
  C7, as the claim has it, fails. For the reply \<open>{error: {code: -32601, message: "Method
  not found"}}\<close> the exception carries the string
  \<open>MCP Error: {'code': -32601, 'message': 'Method not found'}\<close>, not the dict. The rendering
  does not determine the payload either: the replies \<open>{error: 1}\<close> and \<open>{error: "1"}\<close>
  raise the same exception.
\<close>

theorem error_payload_not_attached:
  "fst (call_jsonrpc (server (ok_reply (JObj [(''error'', method_not_found)]))) ''tools/list'' None
          (start local_client 0)) =
     Inl (Exception ''MCP Error: {'code': -32601, 'message': 'Method not found'}'') \<and>
   args (Exception ''MCP Error: {'code': -32601, 'message': 'Method not found'}'') \<noteq>
     [method_not_found] \<and>
   fst (call_jsonrpc (server (ok_reply (JObj [(''error'', JInt 1)]))) ''tools/list'' None
          (start local_client 0)) =
   fst (call_jsonrpc (server (ok_reply (JObj [(''error'', JStr ''1'')]))) ''tools/list'' None
          (start local_client 0))"
proof -
  have c: "fst (call_jsonrpc (server (ok_reply (JObj [(''error'', e)]))) ''tools/list'' None
                 (start local_client 0)) = Inl (Exception (''MCP Error: '' @ str e))" for e
    by (simp add: call_jsonrpc_ok_reply resolve_error)
  have 1: "fst (call_jsonrpc (server (ok_reply (JObj [(''error'', method_not_found)]))) ''tools/list''
                 None (start local_client 0)) =
     Inl (Exception ''MCP Error: {'code': -32601, 'message': 'Method not found'}'')"
    by (simp only: c str_method_not_found append.simps)
  have 2: "args (Exception ''MCP Error: {'code': -32601, 'message': 'Method not found'}'') \<noteq>
             [method_not_found]"
    by (simp add: method_not_found_def)
  have "str (JInt 1) = str (JStr ''1'')"
    by (simp add: str_defs)
  then have 3: "fst (call_jsonrpc (server (ok_reply (JObj [(''error'', JInt 1)]))) ''tools/list'' None
          (start local_client 0)) =
   fst (call_jsonrpc (server (ok_reply (JObj [(''error'', JStr ''1'')]))) ''tools/list'' None
          (start local_client 0))"
    by (simp only: c)
  from 1 2 3 show ?thesis by (intro conjI)
qed

text \<open>
  C8, as the code has it. A call makes exactly one post: the request is appended once to
  what was sent and the world is the one that post leaves. If the post raises, or
  \<^verbatim>\<open>raise_for_status\<close> raises, the call raises that same \<^verbatim>\<open>requests\<close> exception. If
  neither raises, the outcome of the call is no exception of these two sources. The \<^verbatim>\<open>Exception\<close> of the
  error branch is raised only after a post that returned and passed the status check.
  The failing statuses are the ones \<^verbatim>\<open>raise_for_status\<close> rejects.
\<close>

theorem transport_failure_surfaces_once:
  "let request = post_request (inst s) (payload (request_id (inst s) + 1) method params);
       outcome = fst (requests_post lib (world s) request);
       r = fst (call_jsonrpc lib method params s);
       s' = snd (call_jsonrpc lib method params s)
   in wire s' = wire s @ [request] \<and>
      world s' = snd (requests_post lib (world s) request) \<and>
      (case outcome of
         Inl e \<Rightarrow> r = Inl (Requests e)
       | Inr response \<Rightarrow>
           (case raise_for_status lib response of
              Some e \<Rightarrow> r = Inl (Requests e)
            | None \<Rightarrow> (\<forall>e. r \<noteq> Inl (Requests e)))) \<and>
      (\<forall>msg. r = Inl (Exception msg) \<longrightarrow>
         (\<exists>response. outcome = Inr response \<and> raise_for_status lib response = None))"
  by (auto simp: Let_def wire_call_jsonrpc world_call_jsonrpc call_jsonrpc_result
        resolve_not_Requests split: sum.splits option.splits)

text \<open>A post that times out, and a reply with status 503 whose body has an \<^verbatim>\<open>error\<close>
  key: both surface as the \<^verbatim>\<open>requests\<close> exception, after one post.\<close>

theorem transport_failure_surfaces_once_witness:
  "fst (call_jsonrpc (server (Inl Timeout)) ''tools/list'' None (start local_client 0)) =
     Inl (Requests Timeout) \<and>
   world (snd (call_jsonrpc (server (Inl Timeout)) ''tools/list'' None (start local_client 0))) = 1 \<and>
   fst (call_jsonrpc
          (server (Inr \<lparr>status_code = 503, decoded_body = Some (JObj [(''error'', JInt 1)])\<rparr>))
          ''tools/list'' None (start local_client 0)) = Inl (Requests (HTTPError 503))"
proof -
  have a: "fst (call_jsonrpc (server (Inl Timeout)) ''tools/list'' None (start local_client 0)) =
     Inl (Requests Timeout) \<and>
   world (snd (call_jsonrpc (server (Inl Timeout)) ''tools/list'' None (start local_client 0))) = 1"
    using transport_failure_surfaces_once
      [of "start local_client 0" "''tools/list''" None "server (Inl Timeout)"]
    by (simp add: Let_def server_def start_def)
  have b: "fst (call_jsonrpc
          (server (Inr \<lparr>status_code = 503, decoded_body = Some (JObj [(''error'', JInt 1)])\<rparr>))
          ''tools/list'' None (start local_client 0)) = Inl (Requests (HTTPError 503))"
    using transport_failure_surfaces_once
      [of "start local_client 0" "''tools/list''" None
          "server (Inr \<lparr>status_code = 503, decoded_body = Some (JObj [(''error'', JInt 1)])\<rparr>)"]
    by (simp add: Let_def server_def start_def http_raise_for_status_def)
  from a b show ?thesis by simp
qed

text \<open>
  C8, as the claim has it, fails for a status outside 200 to 299 that
  \<^verbatim>\<open>raise_for_status\<close> accepts. A reply with status 300 and the body \<open>{result: {tools:
  []}}\<close> is not surfaced as a failure: the call returns the result.
\<close>

theorem status_300_is_not_a_failure:
  "fst (call_jsonrpc
          (server (Inr \<lparr>status_code = 300,
                         decoded_body = Some (JObj [(''result'', JObj [(''tools'', JArr [])])])\<rparr>))
          ''tools/list'' None (start local_client 0)) = Inr (JObj [(''tools'', JArr [])])"
  by (simp add: call_jsonrpc_result server_def http_raise_for_status_def resolve_no_error)

subsection \<open>Unwrapping a tool result\<close>

lemma unwrap_first_item:
  "map_of r ''content'' = Some (JArr (x # rest)) \<Longrightarrow>
     unwrap lib (JObj r) = then_do (getitem x ''text'') (loads lib)"
  by (simp add: unwrap_def then_do_def)

lemma fst_unwrapped: "fst (unwrapped lib x) = then_do (fst x) (unwrap lib)"
  by (simp add: unwrapped_def then_do_def split: prod.splits sum.splits)

text \<open>What \<^verbatim>\<open>query\<close> returns when the server replies with \<open>{result: v}\<close>.\<close>

lemma query_ok_reply:
  "fst (query (server (ok_reply (JObj [(''result'', v)]))) soql s) =
     unwrap (server (ok_reply (JObj [(''result'', v)]))) v"
  by (simp add: query_def fst_unwrapped call_tool_def call_jsonrpc_ok_reply resolve_no_error
        then_do_def)

lemma fst_unwrapped_Inr: "fst x = Inr result \<Longrightarrow> fst (unwrapped lib x) = unwrap lib result"
  by (simp add: fst_unwrapped then_do_def)

lemma call_tool_ok_reply:
  "fst (call_tool (server (ok_reply (JObj [(''result'', v)]))) tool_name arguments s) = Inr v"
  by (simp add: call_tool_def call_jsonrpc_ok_reply resolve_no_error)

text \<open>
  C3. Let the tool result have a \<^verbatim>\<open>content\<close> that is a list with a first element
  \<open>x\<close>. Then unwrapping is \<^verbatim>\<open>json.loads(x["text"])\<close>: it returns what decoding the
  \<^verbatim>\<open>text\<close> entry of the first element returns, and raises what that raises. Each of
  \<^verbatim>\<open>query\<close>, \<^verbatim>\<open>tooling_query\<close>, \<^verbatim>\<open>describe_object\<close> and
  \<^verbatim>\<open>retrieve_metadata\<close> returns exactly this when its tool call returns that result.
\<close>

theorem methods_decode_first_text:
  assumes "map_of r ''content'' = Some (JArr (x # rest))"
  shows "unwrap lib (JObj r) = then_do (getitem x ''text'') (loads lib) \<and>
    (fst (call_tool lib ''query'' (JObj [(''query'', JStr soql)]) s) = Inr (JObj r) \<longrightarrow>
       fst (query lib soql s) = then_do (getitem x ''text'') (loads lib)) \<and>
    (fst (call_tool lib ''tooling-query'' (JObj [(''query'', JStr q)]) s) = Inr (JObj r) \<longrightarrow>
       fst (tooling_query lib q s) = then_do (getitem x ''text'') (loads lib)) \<and>
    (fst (call_tool lib ''describe-object''
            (JObj [(''objectName'', JStr object_name), (''detailed'', JBool detailed)]) s) =
       Inr (JObj r) \<longrightarrow>
       fst (describe_object lib object_name detailed s) =
         then_do (getitem x ''text'') (loads lib)) \<and>
    (fst (call_tool lib ''metadata-retrieve''
            (JObj [(''type'', JStr metadata_type), (''fullNames'', JArr full_names)]) s) =
       Inr (JObj r) \<longrightarrow>
       fst (retrieve_metadata lib metadata_type full_names s) =
         then_do (getitem x ''text'') (loads lib))"
proof -
  note u = unwrap_first_item [OF assms, of lib]
  have "fst (query lib soql s) = then_do (getitem x ''text'') (loads lib)"
    if "fst (call_tool lib ''query'' (JObj [(''query'', JStr soql)]) s) = Inr (JObj r)"
    using that by (simp add: query_def fst_unwrapped_Inr u)
  moreover have "fst (tooling_query lib q s) = then_do (getitem x ''text'') (loads lib)"
    if "fst (call_tool lib ''tooling-query'' (JObj [(''query'', JStr q)]) s) = Inr (JObj r)"
    using that by (simp add: tooling_query_def fst_unwrapped_Inr u)
  moreover have "fst (describe_object lib object_name detailed s) =
      then_do (getitem x ''text'') (loads lib)"
    if "fst (call_tool lib ''describe-object''
            (JObj [(''objectName'', JStr object_name), (''detailed'', JBool detailed)]) s) =
       Inr (JObj r)"
    using that by (simp add: describe_object_def fst_unwrapped_Inr u)
  moreover have "fst (retrieve_metadata lib metadata_type full_names s) =
      then_do (getitem x ''text'') (loads lib)"
    if "fst (call_tool lib ''metadata-retrieve''
            (JObj [(''type'', JStr metadata_type), (''fullNames'', JArr full_names)]) s) =
       Inr (JObj r)"
    using that by (simp add: retrieve_metadata_def fst_unwrapped_Inr u)
  ultimately show ?thesis
    using u by blast
qed

text \<open>The tool result \<open>{content: [{type: "text", text: "{\"a\":1}"}]}\<close> unwraps to
  \<open>{a: 1}\<close> in each of the four methods, with a decoder that reads that text as
  \<^verbatim>\<open>json.loads\<close> does.\<close>

theorem methods_decode_first_text_witness:
  \<open>fst (query
          (server (ok_reply (JObj [(''result'',
             JObj [(''content'', JArr [JObj [(''type'', JStr ''text''), (''text'', JStr ''{"a":1}'')]])])])))
          ''SELECT Id FROM Account LIMIT 1'' (start local_client 0)) =
     Inr (JObj [(''a'', JInt 1)]) \<and>
   fst (tooling_query
          (server (ok_reply (JObj [(''result'',
             JObj [(''content'', JArr [JObj [(''type'', JStr ''text''), (''text'', JStr ''{"a":1}'')]])])])))
          ''SELECT Id FROM ApexClass LIMIT 5'' (start local_client 0)) =
     Inr (JObj [(''a'', JInt 1)]) \<and>
   fst (describe_object
          (server (ok_reply (JObj [(''result'',
             JObj [(''content'', JArr [JObj [(''type'', JStr ''text''), (''text'', JStr ''{"a":1}'')]])])])))
          ''Account'' False (start local_client 0)) =
     Inr (JObj [(''a'', JInt 1)]) \<and>
   fst (retrieve_metadata
          (server (ok_reply (JObj [(''result'',
             JObj [(''content'', JArr [JObj [(''type'', JStr ''text''), (''text'', JStr ''{"a":1}'')]])])])))
          ''ApexClass'' [JStr ''AccountService''] (start local_client 0)) =
     Inr (JObj [(''a'', JInt 1)])\<close>
proof -
  let ?x = \<open>JObj [(''type'', JStr ''text''), (''text'', JStr ''{"a":1}'')]\<close>
  let ?r = "[(''content'', JArr [?x])]"
  let ?lib = "server (ok_reply (JObj [(''result'', JObj ?r)]))"
  have d: "then_do (getitem ?x ''text'') (loads ?lib) = Inr (JObj [(''a'', JInt 1)])"
    by (simp add: then_do_def loads_def server_def sample_loads_def)
  have "map_of ?r ''content'' = Some (JArr (?x # []))"
    by simp
  from methods_decode_first_text
         [OF this, of ?lib "''SELECT Id FROM Account LIMIT 1''" "start local_client 0"
            "''SELECT Id FROM ApexClass LIMIT 5''" "''Account''" False
            "''ApexClass''" "[JStr ''AccountService'']"]
  show ?thesis
    by (simp only: call_tool_ok_reply d simp_thms)
qed

text \<open>
  C5. When the first element of \<^verbatim>\<open>content\<close> is a dict whose \<^verbatim>\<open>text\<close> is a string
  that \<^verbatim>\<open>json.loads\<close> rejects, unwrapping raises \<^verbatim>\<open>json.JSONDecodeError\<close>: no value
  is returned in its place.
\<close>

theorem undecodable_text_raises:
  assumes "map_of r ''content'' = Some (JArr (JObj item # rest))"
      and "map_of item ''text'' = Some (JStr t)"
      and "json_loads lib t = None"
  shows "unwrap lib (JObj r) = Inl JSONDecodeError"
  using assms by (simp add: unwrap_first_item then_do_def loads_def)

text \<open>The exception reaches the caller of \<^verbatim>\<open>query\<close>.\<close>

theorem undecodable_text_raises_witness:
  "fst (query
          (server (ok_reply (JObj [(''result'',
             JObj [(''content'', JArr [JObj [(''type'', JStr ''text''), (''text'', JStr ''not-json'')]])])])))
          ''SELECT Id FROM Account LIMIT 1'' (start local_client 0)) = Inl JSONDecodeError"
proof -
  let ?r = "[(''content'', JArr [JObj [(''type'', JStr ''text''), (''text'', JStr ''not-json'')]])]"
  let ?lib = "server (ok_reply (JObj [(''result'', JObj ?r)]))"
  have "json_loads ?lib ''not-json'' = None"
    by (simp add: server_def sample_loads_def)
  then have "unwrap ?lib (JObj ?r) = Inl JSONDecodeError"
    using undecodable_text_raises
      [of ?r "[(''type'', JStr ''text''), (''text'', JStr ''not-json'')]" "[]" "''not-json''" ?lib]
    by simp
  then show ?thesis
    by (simp only: query_ok_reply)
qed

text \<open>
  C9. When the tool result has no \<^verbatim>\<open>content\<close> key, or \<^verbatim>\<open>content\<close> is the empty
  list, unwrapping returns the tool result itself.
\<close>

theorem unwrap_without_content_is_identity:
  assumes "map_of r ''content'' = None \<or> map_of r ''content'' = Some (JArr [])"
  shows "unwrap lib (JObj r) = Inr (JObj r)"
  using assms by (auto simp: unwrap_def then_do_def)

theorem unwrap_without_content_is_identity_witness:
  "unwrap (server (Inl Timeout)) (JObj [(''isError'', JBool False)]) =
     Inr (JObj [(''isError'', JBool False)]) \<and>
   unwrap (server (Inl Timeout)) (JObj [(''content'', JArr [])]) =
     Inr (JObj [(''content'', JArr [])])"
  using unwrap_without_content_is_identity [of "[(''isError'', JBool False)]" "server (Inl Timeout)"]
        unwrap_without_content_is_identity [of "[(''content'', JArr [])]" "server (Inl Timeout)"]
  by simp

text \<open>
  C10. When the first element of \<^verbatim>\<open>content\<close> is a dict without the key \<^verbatim>\<open>text\<close>,
  unwrapping raises \<^verbatim>\<open>KeyError("text")\<close>: it neither returns the tool result nor
  raises \<^verbatim>\<open>json.JSONDecodeError\<close>.
\<close>

theorem missing_text_raises_KeyError:
  assumes "map_of r ''content'' = Some (JArr (JObj item # rest))"
      and "map_of item ''text'' = None"
  shows "unwrap lib (JObj r) = Inl (KeyError (JStr ''text'')) \<and>
         unwrap lib (JObj r) \<noteq> Inr (JObj r) \<and>
         unwrap lib (JObj r) \<noteq> Inl JSONDecodeError"
  using assms by (simp add: unwrap_first_item then_do_def)

theorem missing_text_raises_KeyError_witness:
  "unwrap (server (Inl Timeout)) (JObj [(''content'', JArr [JObj [(''type'', JStr ''image'')]])]) =
     Inl (KeyError (JStr ''text''))"
  using missing_text_raises_KeyError
    [of "[(''content'', JArr [JObj [(''type'', JStr ''image'')]])]" "[(''type'', JStr ''image'')]" "[]"
        "server (Inl Timeout)"]
  by simp

end
